theory Spec2Isabelle
  imports Complex_Main "HOL-Library.Sublist"
begin

section \<open>Exceptions and HTTP errors\<close>

text \<open>
  The handlers of \<^verbatim>\<open>main.py\<close> distinguish the exceptions they catch by class
  (\<^verbatim>\<open>auth.UserNotFoundError\<close>, \<^verbatim>\<open>spotipy.exceptions.SpotifyException\<close>,
  \<^verbatim>\<open>requests.exceptions.RequestException\<close>, anything else) and read them only
  through \<^verbatim>\<open>str(e)\<close>. An exception is therefore its class and its message.
  \<^verbatim>\<open>fastapi.HTTPException\<close> is what the handlers themselves raise; the third-party
  clients and the interpreter never raise it, so it has a type of its own.
\<close>

datatype exn_class =
    UserNotFoundError
  | SpotifyException
  | RequestException
  | KeyError
  | TypeError
  | AttributeError
  | IndexError
  | OtherException

datatype exn = Exn (cls: exn_class) (str: string)

datatype http_exception = HTTPException (status_code: nat) (detail: string)

text \<open>What a \<^verbatim>\<open>try\<close> body can raise: an HTTPException or any other exception.\<close>

datatype raised = Http http_exception | Other exn

section \<open>JSON values with Python's access rules\<close>

datatype json =
    JNull
  | JBool bool
  | JInt int
  | JFloat real
  | JStr string
  | JList "json list"
  | JDict "(string \<times> json) list"

definition quote :: "string \<Rightarrow> string" where
  "quote s = CHR 0x27 # s @ [CHR 0x27]"

fun type_name :: "json \<Rightarrow> string" where
  "type_name JNull = ''NoneType''"
| "type_name (JBool b) = ''bool''"
| "type_name (JInt n) = ''int''"
| "type_name (JFloat r) = ''float''"
| "type_name (JStr s) = ''str''"
| "type_name (JList xs) = ''list''"
| "type_name (JDict kvs) = ''dict''"

text \<open>\<^verbatim>\<open>bool(x)\<close>, as the conditional expression on \<^verbatim>\<open>playlist['images']\<close> tests it.\<close>

fun truthy :: "json \<Rightarrow> bool" where
  "truthy JNull = False"
| "truthy (JBool b) = b"
| "truthy (JInt n) = (n \<noteq> 0)"
| "truthy (JFloat r) = (r \<noteq> 0)"
| "truthy (JStr s) = (s \<noteq> [])"
| "truthy (JList xs) = (xs \<noteq> [])"
| "truthy (JDict kvs) = (kvs \<noteq> [])"

text \<open>\<^verbatim>\<open>x.get(k, default)\<close>: only a dict has the method.\<close>

fun dict_get :: "json \<Rightarrow> string \<Rightarrow> json \<Rightarrow> exn + json" where
  "dict_get (JDict kvs) k d = (case map_of kvs k of None \<Rightarrow> Inr d | Some v \<Rightarrow> Inr v)"
| "dict_get x k d =
     Inl (Exn AttributeError (quote (type_name x) @ '' object has no attribute '' @ quote ''get''))"

text \<open>\<^verbatim>\<open>x[k]\<close> with a string key \<^verbatim>\<open>k\<close>.\<close>

fun subscript :: "json \<Rightarrow> string \<Rightarrow> exn + json" where
  "subscript (JDict kvs) k =
     (case map_of kvs k of None \<Rightarrow> Inl (Exn KeyError (quote k)) | Some v \<Rightarrow> Inr v)"
| "subscript (JList xs) k =
     Inl (Exn TypeError ''list indices must be integers or slices, not str'')"
| "subscript (JStr s) k =
     Inl (Exn TypeError (''string indices must be integers, not '' @ quote ''str''))"
| "subscript x k =
     Inl (Exn TypeError (quote (type_name x) @ '' object is not subscriptable''))"

text \<open>\<^verbatim>\<open>x[0]\<close>. A dict decoded from JSON has string keys only, so \<^verbatim>\<open>0\<close> is never a key.\<close>

fun subscript0 :: "json \<Rightarrow> exn + json" where
  "subscript0 (JList []) = Inl (Exn IndexError ''list index out of range'')"
| "subscript0 (JList (x # xs)) = Inr x"
| "subscript0 (JStr []) = Inl (Exn IndexError ''string index out of range'')"
| "subscript0 (JStr (c # cs)) = Inr (JStr [c])"
| "subscript0 (JDict kvs) = Inl (Exn KeyError ''0'')"
| "subscript0 x = Inl (Exn TypeError (quote (type_name x) @ '' object is not subscriptable''))"

text \<open>What a \<^verbatim>\<open>for\<close> loop over \<^verbatim>\<open>x\<close> visits: list elements, dict keys, the characters of a string.\<close>

fun iterate :: "json \<Rightarrow> exn + json list" where
  "iterate (JList xs) = Inr xs"
| "iterate (JDict kvs) = Inr (map (\<lambda>kv. JStr (fst kv)) kvs)"
| "iterate (JStr s) = Inr (map (\<lambda>c. JStr [c]) s)"
| "iterate x = Inl (Exn TypeError (quote (type_name x) @ '' object is not iterable''))"

section \<open>Requests, stored documents and external services\<close>

text \<open>
  The request bodies, as the handlers receive them once the framework has validated
  their shape. Field names carry a prefix where two models share a name.
\<close>

record RegisterRequest =
  reg_email :: string
  reg_password :: string
  reg_name :: string

record LoginRequest =
  login_email :: string
  login_password :: string

record GeneratePlanRequest =
  user_uid :: string
  current_weight :: real
  target_weight :: real
  duration_weeks :: int
  music_genre :: string
  workout_intensity :: "string option"

record NutritionIngredient =
  ingredient :: string

text \<open>\<^verbatim>\<open>firestore.SERVER_TIMESTAMP\<close>: the sentinel the handlers put into a document.\<close>

datatype sentinel = SERVER_TIMESTAMP

text \<open>The identity service's \<^verbatim>\<open>UserRecord\<close>, as far as the handlers read it.\<close>

record UserRecord =
  uid :: string
  email :: string

text \<open>The profile document written by \<^verbatim>\<open>register_user\<close>.\<close>

record profile_doc =
  p_name :: string
  p_email :: string
  p_created_at :: sentinel

text \<open>
  The two prompts are f-string templates with the same three holes. A prompt is the
  template together with the interpolated values.
\<close>

datatype prompt =
    WorkoutPrompt real real int
  | DietPrompt real real int

text \<open>The response of \<^verbatim>\<open>generate_content\<close>; reading \<^verbatim>\<open>.text\<close> can itself raise.\<close>

datatype generate_content_response = GenerateContentResponse (response_text: "exn + string")

text \<open>
  One entry of \<^verbatim>\<open>playlist_suggestions\<close>: the six-key dict built from a search item, or
  the dict \<^verbatim>\<open>{"error": ...}\<close>.
\<close>

datatype suggestion =
    Playlist (s_name: json) (s_description: json) (s_spotify_url: json)
             (s_image_url: json) (s_owner: json) (s_tracks_count: json)
  | Error string

text \<open>The plan document written by \<^verbatim>\<open>generate_plan\<close>.\<close>

record plan_doc =
  d_current_weight :: real
  d_target_weight :: real
  d_duration_weeks :: int
  d_music_genre :: string
  d_workout_intensity :: "string option"
  d_workout_plan :: string
  d_diet_general_info :: string
  d_music_playlist_suggestions :: "suggestion list"
  d_generated_at :: sentinel

text \<open>
  The response of \<^verbatim>\<open>requests.post\<close>, as the handler uses it: what
  \<^verbatim>\<open>raise_for_status()\<close> raises (nothing on a success status, an HTTPError, which is a
  RequestException, on 4xx and 5xx) and what \<^verbatim>\<open>.json()\<close> gives.
\<close>

record http_response =
  r_raise_for_status :: "exn option"
  r_json :: "exn + json"

text \<open>
  The process-wide configuration and clients of sections 2 and 3 of \<^verbatim>\<open>main.py\<close>, and how
  the external services answer. A client that was not initialised is \<open>None\<close>. A call
  either raises or returns. \<open>users_set\<close> and \<open>plans_add\<close> say what the calls
  \<^verbatim>\<open>set(...)\<close> and \<^verbatim>\<open>add(...)\<close> themselves do: a call that raises has written nothing, a
  call that returns has written.
\<close>

record env =
  EDAMAM_APP_ID :: "string option"
  EDAMAM_APP_KEY :: "string option"
  gemini_model :: "(prompt \<Rightarrow> exn + generate_content_response) option"
  spotify :: "(string \<Rightarrow> string \<Rightarrow> nat \<Rightarrow> exn + json) option"
  auth_create_user :: "string \<Rightarrow> string \<Rightarrow> exn + UserRecord"
  auth_get_user_by_email :: "string \<Rightarrow> exn + UserRecord"
  users_set :: "string \<Rightarrow> profile_doc \<Rightarrow> exn option"
  plans_add :: "string \<Rightarrow> plan_doc \<Rightarrow> exn option"
  requests_post :: "string \<Rightarrow> string list \<Rightarrow> (string \<times> string) list \<Rightarrow> exn + http_response"

text \<open>Every call a handler makes to an external service, in the order made.\<close>

datatype call =
    CreateUser string string
  | GetUserByEmail string
  | UsersSet string profile_doc
  | GenerateContent prompt
  | SpotifySearch string string nat
  | PlansAdd string plan_doc
  | RequestsPost string "string list" "(string \<times> string) list"

text \<open>
  The state outside the process: the identity service's accounts, the profile documents
  \<^verbatim>\<open>users/{uid}\<close>, the sub-collections \<^verbatim>\<open>users/{uid}/plans\<close>, and the trace of calls.
\<close>

record world =
  identities :: "UserRecord list"
  users :: "string \<rightharpoonup> profile_doc"
  plans :: "string \<Rightarrow> plan_doc list"
  calls :: "call list"

definition log :: "call \<Rightarrow> world \<Rightarrow> world" where
  "log c w = w\<lparr>calls := calls w @ [c]\<rparr>"

section \<open>Awaiting the results of the store client\<close>

text \<open>
  \<^verbatim>\<open>db\<close> is \<^verbatim>\<open>firestore.client()\<close> of \<^verbatim>\<open>firebase_admin\<close>, the synchronous client:
  \<^verbatim>\<open>set(...)\<close> performs the write and returns a \<^verbatim>\<open>WriteResult\<close>, \<^verbatim>\<open>add(...)\<close> performs
  the write and returns a tuple. The handlers apply \<^verbatim>\<open>await\<close> to these values. Neither is
  awaitable, so the \<^verbatim>\<open>await\<close> raises a TypeError, after the write has been done.
\<close>

datatype returned = WriteResult | Tuple

fun class_name :: "returned \<Rightarrow> string" where
  "class_name WriteResult = ''WriteResult''"
| "class_name Tuple = ''tuple''"

definition not_awaitable :: "returned \<Rightarrow> exn" where
  "not_awaitable x =
     Exn TypeError (''object '' @ class_name x @ '' can'' @ [CHR 0x27] @ ''t be used in '' @
                    quote ''await'' @ '' expression'')"

definition await :: "returned \<Rightarrow> exn + returned" where
  "await x = Inl (not_awaitable x)"

section \<open>Registration and login lookup\<close>

definition register_user ::
  "env \<Rightarrow> world \<Rightarrow> RegisterRequest \<Rightarrow> (http_exception + (string \<times> string) list) \<times> world" where
  "register_user e w request_data =
     (let w1 = log (CreateUser (reg_email request_data) (reg_password request_data)) w;
          body =
            (case auth_create_user e (reg_email request_data) (reg_password request_data) of
               Inl ex \<Rightarrow> (Inl ex, w1)
             | Inr user \<Rightarrow>
                 (let w2 = w1\<lparr>identities := identities w1 @ [user]\<rparr>;
                      doc = \<lparr>p_name = reg_name request_data, p_email = reg_email request_data,
                             p_created_at = SERVER_TIMESTAMP\<rparr>;
                      w3 = log (UsersSet (uid user) doc) w2
                  in case users_set e (uid user) doc of
                       Some ex \<Rightarrow> (Inl ex, w3)
                     | None \<Rightarrow>
                         (let w4 = w3\<lparr>users := (users w3)(uid user \<mapsto> doc)\<rparr>
                          in case await WriteResult of
                               Inl ex \<Rightarrow> (Inl ex, w4)
                             | Inr x \<Rightarrow>
                                 (Inr [(''message'', ''User registered successfully''),
                                       (''uid'', uid user)], w4))))
      in case body of
           (Inr r, w') \<Rightarrow> (Inr r, w')
         | (Inl ex, w') \<Rightarrow>
             if sublist ''email-already-exists'' (str ex)
             then (Inl (HTTPException 409
                    ''Email already registered. Please use a different email or log in.''), w')
             else (Inl (HTTPException 400 (''Registration failed: '' @ str ex)), w'))"

definition login_user ::
  "env \<Rightarrow> world \<Rightarrow> LoginRequest \<Rightarrow> (http_exception + (string \<times> string) list) \<times> world" where
  "login_user e w request_data =
     (let w1 = log (GetUserByEmail (login_email request_data)) w
      in case auth_get_user_by_email e (login_email request_data) of
           Inr user \<Rightarrow>
             (Inr [(''message'', ''User found (client handles actual authentication)''),
                   (''uid'', uid user), (''email'', email user)], w1)
         | Inl ex \<Rightarrow>
             if cls ex = UserNotFoundError
             then (Inl (HTTPException 404 ''User not found with this email.''), w1)
             else (Inl (HTTPException 400 (''Login verification failed: '' @ str ex)), w1))"

section \<open>Plan generation\<close>

record plan_response =
  message :: string
  workout_plan :: string
  diet_plan_summary :: string
  music_playlist_suggestions :: "suggestion list"

text \<open>Sequencing of steps that may raise: the first exception ends the computation.\<close>

definition and_then :: "exn + 'a \<Rightarrow> ('a \<Rightarrow> exn + 'b) \<Rightarrow> exn + 'b" where
  "and_then r f = (case r of Inl ex \<Rightarrow> Inl ex | Inr x \<Rightarrow> f x)"

text \<open>\<^verbatim>\<open>gemini_model.generate_content(prompt).text\<close>\<close>

definition generate_text :: "(prompt \<Rightarrow> exn + generate_content_response) \<Rightarrow> prompt \<Rightarrow> exn + string" where
  "generate_text g p = and_then (g p) response_text"

definition workout_prompt :: "GeneratePlanRequest \<Rightarrow> prompt" where
  "workout_prompt request_data =
     WorkoutPrompt (current_weight request_data) (target_weight request_data)
       (duration_weeks request_data)"

definition diet_initial_prompt :: "GeneratePlanRequest \<Rightarrow> prompt" where
  "diet_initial_prompt request_data =
     DietPrompt (current_weight request_data) (target_weight request_data)
       (duration_weeks request_data)"

text \<open>
  The search query. \<^verbatim>\<open>workout_intensity\<close> is optional: an explicit null is
  interpolated as \<^verbatim>\<open>None\<close>.
\<close>

definition query :: "GeneratePlanRequest \<Rightarrow> string" where
  "query request_data =
     music_genre request_data @ '' '' @
     (case workout_intensity request_data of None \<Rightarrow> ''None'' | Some s \<Rightarrow> s) @
     '' workout music''"

text \<open>The dict built from one search item, its values evaluated in the order written.\<close>

definition playlist_entry :: "json \<Rightarrow> exn + suggestion" where
  "playlist_entry playlist =
     and_then (subscript playlist ''name'') (\<lambda>name.
     and_then (dict_get playlist ''description'' (JStr ''No description available'')) (\<lambda>description.
     and_then (and_then (subscript playlist ''external_urls'') (\<lambda>u. subscript u ''spotify''))
       (\<lambda>spotify_url.
     and_then (and_then (subscript playlist ''images'') (\<lambda>images.
                 if truthy images
                 then and_then (and_then (subscript playlist ''images'') subscript0)
                        (\<lambda>i. subscript i ''url'')
                 else Inr JNull))
       (\<lambda>image_url.
     and_then (and_then (subscript playlist ''owner'') (\<lambda>ow. subscript ow ''display_name''))
       (\<lambda>owner.
     and_then (and_then (subscript playlist ''tracks'') (\<lambda>t. subscript t ''total''))
       (\<lambda>tracks_count.
     Inr (Playlist name description spotify_url image_url owner tracks_count)))))))"

text \<open>
  The \<^verbatim>\<open>for\<close> loop. It appends to \<^verbatim>\<open>playlist_suggestions\<close> in place, so when an item
  raises, the entries appended before it stay in the list.
\<close>

fun append_playlists :: "json list \<Rightarrow> suggestion list \<Rightarrow> exn option \<times> suggestion list" where
  "append_playlists [] playlist_suggestions = (None, playlist_suggestions)"
| "append_playlists (playlist # rest) playlist_suggestions =
     (case playlist_entry playlist of
        Inl ex \<Rightarrow> (Some ex, playlist_suggestions)
      | Inr s \<Rightarrow> append_playlists rest (playlist_suggestions @ [s]))"

text \<open>\<^verbatim>\<open>results.get('playlists', {}).get('items', [])\<close>, as the loop iterates it.\<close>

definition result_items :: "json \<Rightarrow> exn + json list" where
  "result_items results =
     and_then (and_then (dict_get results ''playlists'' (JDict []))
                 (\<lambda>p. dict_get p ''items'' (JList [])))
       iterate"

text \<open>The inner \<^verbatim>\<open>try\<close> block: the search and the loop.\<close>

definition search_playlists ::
  "(string \<Rightarrow> string \<Rightarrow> nat \<Rightarrow> exn + json) \<Rightarrow> GeneratePlanRequest \<Rightarrow> suggestion list
     \<Rightarrow> exn option \<times> suggestion list" where
  "search_playlists sp request_data playlist_suggestions =
     (case sp (query request_data) ''playlist'' 5 of
        Inl ex \<Rightarrow> (Some ex, playlist_suggestions)
      | Inr results \<Rightarrow>
          (case result_items results of
             Inl ex \<Rightarrow> (Some ex, playlist_suggestions)
           | Inr items \<Rightarrow> append_playlists items playlist_suggestions))"

text \<open>The whole playlist step, with its two \<^verbatim>\<open>except\<close> clauses and the \<^verbatim>\<open>else\<close> branch.\<close>

definition playlist_step :: "env \<Rightarrow> GeneratePlanRequest \<Rightarrow> suggestion list" where
  "playlist_step e request_data =
     (case spotify e of
        Some sp \<Rightarrow>
          (case search_playlists sp request_data [] of
             (None, playlist_suggestions) \<Rightarrow> playlist_suggestions
           | (Some se, playlist_suggestions) \<Rightarrow>
               if cls se = SpotifyException
               then playlist_suggestions @
                      [Error (''Spotify API error: '' @ str se @ ''. Check credentials or network.'')]
               else playlist_suggestions @
                      [Error (''An unexpected Spotify error occurred: '' @ str se)])
      | None \<Rightarrow>
          [] @ [Error ''Spotify API not initialized. Check server logs for credential errors.''])"

definition plan_document ::
  "GeneratePlanRequest \<Rightarrow> string \<Rightarrow> string \<Rightarrow> suggestion list \<Rightarrow> plan_doc" where
  "plan_document request_data wp dg ps =
     \<lparr>d_current_weight = current_weight request_data,
      d_target_weight = target_weight request_data,
      d_duration_weeks = duration_weeks request_data,
      d_music_genre = music_genre request_data,
      d_workout_intensity = workout_intensity request_data,
      d_workout_plan = wp,
      d_diet_general_info = dg,
      d_music_playlist_suggestions = ps,
      d_generated_at = SERVER_TIMESTAMP\<rparr>"

text \<open>The body of the outer \<^verbatim>\<open>try\<close> of \<^verbatim>\<open>generate_plan\<close>.\<close>

definition generate_plan_body ::
  "(prompt \<Rightarrow> exn + generate_content_response) \<Rightarrow> env \<Rightarrow> world \<Rightarrow> GeneratePlanRequest
     \<Rightarrow> (raised + plan_response) \<times> world" where
  "generate_plan_body g e w request_data =
     (let w1 = log (GenerateContent (workout_prompt request_data)) w
      in case generate_text g (workout_prompt request_data) of
           Inl ex \<Rightarrow> (Inl (Other ex), w1)
         | Inr wp \<Rightarrow>
      (let w2 = log (GenerateContent (diet_initial_prompt request_data)) w1
       in case generate_text g (diet_initial_prompt request_data) of
            Inl ex \<Rightarrow> (Inl (Other ex), w2)
          | Inr diet_general_info \<Rightarrow>
      (let playlist_suggestions = playlist_step e request_data;
           w3 = (case spotify e of
                   Some sp \<Rightarrow> log (SpotifySearch (query request_data) ''playlist'' 5) w2
                 | None \<Rightarrow> w2);
           doc = plan_document request_data wp diet_general_info playlist_suggestions;
           w4 = log (PlansAdd (user_uid request_data) doc) w3
       in case plans_add e (user_uid request_data) doc of
            Some ex \<Rightarrow> (Inl (Other ex), w4)
          | None \<Rightarrow>
              (let w5 = w4\<lparr>plans := (plans w4)
                            (user_uid request_data := plans w4 (user_uid request_data) @ [doc])\<rparr>
               in case await Tuple of
                    Inl ex \<Rightarrow> (Inl (Other ex), w5)
                  | Inr x \<Rightarrow>
                      (Inr \<lparr>message = ''Plan generated and saved successfully'',
                            workout_plan = wp,
                            diet_plan_summary = diet_general_info,
                            music_playlist_suggestions = playlist_suggestions\<rparr>, w5)))))"

definition generate_plan ::
  "env \<Rightarrow> world \<Rightarrow> GeneratePlanRequest \<Rightarrow> (http_exception + plan_response) \<times> world" where
  "generate_plan e w request_data =
     (case gemini_model e of
        None \<Rightarrow>
          (Inl (HTTPException 503
             ''AI model (Gemini) is not initialized. Please check GEMINI_API_KEY.''), w)
      | Some g \<Rightarrow>
          (case generate_plan_body g e w request_data of
             (Inr r, w') \<Rightarrow> (Inr r, w')
           | (Inl (Http h), w') \<Rightarrow> (Inl h, w')
           | (Inl (Other ex), w') \<Rightarrow>
               (Inl (HTTPException 500
                  (''An internal error occurred while generating the plan: '' @ str ex)), w')))"

section \<open>Nutrition analysis\<close>

text \<open>\<^verbatim>\<open>not X\<close> on an environment variable: unset or empty.\<close>

definition missing :: "string option \<Rightarrow> bool" where
  "missing v = (case v of None \<Rightarrow> True | Some s \<Rightarrow> s = [])"

definition edamam_nutrition_url :: string where
  "edamam_nutrition_url = ''https://api.edamam.com/api/nutrition-details''"

definition analyze_nutrition ::
  "env \<Rightarrow> world \<Rightarrow> NutritionIngredient list \<Rightarrow> (http_exception + json) \<times> world" where
  "analyze_nutrition e w ingredients =
     (if missing (EDAMAM_APP_ID e) \<or> missing (EDAMAM_APP_KEY e)
      then (Inl (HTTPException 503
              ''Edamam API keys are not configured. Nutrition analysis is unavailable.''), w)
      else
        (let params = [(''app_id'', case EDAMAM_APP_ID e of Some s \<Rightarrow> s | None \<Rightarrow> []),
                       (''app_key'', case EDAMAM_APP_KEY e of Some s \<Rightarrow> s | None \<Rightarrow> [])];
             ingredient_strings = map ingredient ingredients;
             w1 = log (RequestsPost edamam_nutrition_url ingredient_strings params) w;
             body = and_then (requests_post e edamam_nutrition_url ingredient_strings params)
                      (\<lambda>response.
                         case r_raise_for_status response of
                           Some ex \<Rightarrow> Inl ex
                         | None \<Rightarrow> r_json response)
         in case body of
              Inr j \<Rightarrow> (Inr j, w1)
            | Inl ex \<Rightarrow>
                if cls ex = RequestException
                then (Inl (HTTPException 502
                        (''Edamam API service is currently unavailable or returned an error: '' @
                         str ex)), w1)
                else (Inl (HTTPException 500
                        (''An unexpected error occurred during nutrition analysis: '' @ str ex)),
                      w1)))"

section \<open>Observations on the trace, and concrete services\<close>

fun is_SpotifySearch :: "call \<Rightarrow> bool" where
  "is_SpotifySearch (SpotifySearch q t n) = True"
| "is_SpotifySearch c = False"

text \<open>An empty outside world, and an environment in which nothing is configured.\<close>

definition w0 :: world where
  "w0 = \<lparr>identities = [], users = Map.empty, plans = (\<lambda>u. []), calls = []\<rparr>"

definition env0 :: env where
  "env0 =
     \<lparr>EDAMAM_APP_ID = None, EDAMAM_APP_KEY = None, gemini_model = None, spotify = None,
      auth_create_user = (\<lambda>e p. Inr \<lparr>uid = ''u1'', email = e\<rparr>),
      auth_get_user_by_email = (\<lambda>e. Inr \<lparr>uid = ''u1'', email = e\<rparr>),
      users_set = (\<lambda>u d. None),
      plans_add = (\<lambda>u d. None),
      requests_post = (\<lambda>u i p. Inr \<lparr>r_raise_for_status = None, r_json = Inr (JDict [])\<rparr>)\<rparr>"

text \<open>The request of the specification's example.\<close>

definition req0 :: GeneratePlanRequest where
  "req0 = \<lparr>user_uid = ''u1'', current_weight = 70.5, target_weight = 65.0, duration_weeks = 8,
           music_genre = ''Electronic Dance Music'', workout_intensity = Some ''moderate''\<rparr>"

text \<open>A generation service that answers both prompts.\<close>

definition gemini_ok :: "prompt \<Rightarrow> exn + generate_content_response" where
  "gemini_ok p =
     (case p of
        WorkoutPrompt a b c \<Rightarrow> Inr (GenerateContentResponse (Inr ''Day 1: squats''))
      | DietPrompt a b c \<Rightarrow> Inr (GenerateContentResponse (Inr ''2000 kcal'')))"

text \<open>A store whose \<^verbatim>\<open>set(...)\<close> raises, and a registration and a login request.\<close>

definition users_set_fails :: "string \<Rightarrow> profile_doc \<Rightarrow> exn option" where
  "users_set_fails u d = Some (Exn OtherException ''deadline exceeded'')"

definition reg0 :: RegisterRequest where
  "reg0 = \<lparr>reg_email = ''jane@example.com'', reg_password = ''secret123'', reg_name = ''Jane Doe''\<rparr>"

definition login0 :: LoginRequest where
  "login0 = \<lparr>login_email = ''jane@example.com'', login_password = ''secret123''\<rparr>"

text \<open>
  What the identity service's Python client raises for an email that is already
  registered: an \<^verbatim>\<open>EmailAlreadyExistsError\<close> with this message.
\<close>

definition email_exists_message :: string where
  "email_exists_message = ''The user with the provided email already exists (EMAIL_EXISTS).''"

definition create_user_duplicate :: "string \<Rightarrow> string \<Rightarrow> exn + UserRecord" where
  "create_user_duplicate e p = Inl (Exn OtherException email_exists_message)"

text \<open>Ingredients, and a nutrition service that answers with a JSON object.\<close>

definition ingredients0 :: "NutritionIngredient list" where
  "ingredients0 = [\<lparr>ingredient = ''1 cup cooked rice''\<rparr>, \<lparr>ingredient = ''2 eggs''\<rparr>]"

definition edamam_echo :: "string \<Rightarrow> string list \<Rightarrow> (string \<times> string) list \<Rightarrow> exn + http_response" where
  "edamam_echo url ingr params =
     Inr \<lparr>r_raise_for_status = None,
          r_json = Inr (JDict [(''ingredients'', JList (map JStr ingr)), (''calories'', JInt 520)])\<rparr>"

definition env_edamam :: env where
  "env_edamam = env0\<lparr>EDAMAM_APP_ID := Some ''id'', EDAMAM_APP_KEY := Some ''key'',
                     requests_post := edamam_echo\<rparr>"

text \<open>A well-formed search item, the entry built from it, and search responses.\<close>

definition item :: "string \<Rightarrow> json" where
  "item n =
     JDict [(''name'', JStr n),
            (''description'', JStr ''Beats''),
            (''external_urls'', JDict [(''spotify'', JStr (''https://open.spotify.com/playlist/'' @ n))]),
            (''images'', JList []),
            (''owner'', JDict [(''display_name'', JStr ''DJ'')]),
            (''tracks'', JDict [(''total'', JInt 40)])]"

definition entry :: "string \<Rightarrow> suggestion" where
  "entry n =
     Playlist (JStr n) (JStr ''Beats'') (JStr (''https://open.spotify.com/playlist/'' @ n))
       JNull (JStr ''DJ'') (JInt 40)"

definition search_result :: "json list \<Rightarrow> json" where
  "search_result items = JDict [(''playlists'', JDict [(''items'', JList items)])]"

definition search_null_item :: "string \<Rightarrow> string \<Rightarrow> nat \<Rightarrow> exn + json" where
  "search_null_item q t n = Inr (search_result [item ''a'', JNull])"

definition search_six :: "string \<Rightarrow> string \<Rightarrow> nat \<Rightarrow> exn + json" where
  "search_six q t n =
     Inr (search_result [item ''a'', item ''b'', item ''c'', item ''d'', item ''e'', item ''f''])"

definition search_two :: "string \<Rightarrow> string \<Rightarrow> nat \<Rightarrow> exn + json" where
  "search_two q t n = Inr (search_result [item ''a'', item ''b''])"

definition search_rate_limited :: "string \<Rightarrow> string \<Rightarrow> nat \<Rightarrow> exn + json" where
  "search_rate_limited q t n = Inl (Exn SpotifyException ''http status: 429'')"

text \<open>Environments with a generation client, without and with a catalog client.\<close>

definition env_gemini :: env where
  "env_gemini = env0\<lparr>gemini_model := Some gemini_ok\<rparr>"

definition env_null_item :: env where
  "env_null_item = env0\<lparr>gemini_model := Some gemini_ok, spotify := Some search_null_item\<rparr>"

definition env_six :: env where
  "env_six = env0\<lparr>gemini_model := Some gemini_ok, spotify := Some search_six\<rparr>"

definition env_two :: env where
  "env_two = env0\<lparr>gemini_model := Some gemini_ok, spotify := Some search_two\<rparr>"

definition env_rate_limited :: env where
  "env_rate_limited = env0\<lparr>gemini_model := Some gemini_ok, spotify := Some search_rate_limited\<rparr>"

section \<open>Plan generation without a generation client\<close>

text \<open>
  C3. When the text-generation client is not configured, \<^verbatim>\<open>generate_plan\<close> fails with
  503 and leaves the outside world exactly as it was: the trace of calls gains no
  generation call, no catalog call and no store write, and no plan is stored.
\<close>

theorem generate_plan_unavailable:
  assumes "gemini_model e = None"
  shows "generate_plan e w request_data =
           (Inl (HTTPException 503
              ''AI model (Gemini) is not initialized. Please check GEMINI_API_KEY.''), w)"
  using assms by (simp add: generate_plan_def)

theorem generate_plan_unavailable_witness:
  "gemini_model env0 = None \<and>
   generate_plan env0 w0 req0 =
     (Inl (HTTPException 503
        ''AI model (Gemini) is not initialized. Please check GEMINI_API_KEY.''), w0)"
  using generate_plan_unavailable [of env0 w0 req0] by (simp add: env0_def)

section \<open>Registration\<close>

lemma literal_not_in_message: "\<not> sublist ''email-already-exists'' email_exists_message"
  unfolding email_exists_message_def by code_simp

lemma already_exists_in_message: "sublist ''already exists'' email_exists_message"
  unfolding email_exists_message_def by code_simp

lemma literal_not_in_await_error:
  "\<not> sublist ''email-already-exists'' (str (not_awaitable WriteResult))"
  unfolding not_awaitable_def quote_def by code_simp

text \<open>
  When the identity-creation call raises, the handler answers 409 exactly when the text
  \<^verbatim>\<open>email-already-exists\<close> occurs in the exception's message, and 400 with the message
  otherwise; nothing is created.
\<close>

lemma register_user_create_raises:
  assumes "auth_create_user e (reg_email r) (reg_password r) = Inl ex"
  shows "fst (register_user e w r) =
           Inl (if sublist ''email-already-exists'' (str ex)
                then HTTPException 409
                       ''Email already registered. Please use a different email or log in.''
                else HTTPException 400 (''Registration failed: '' @ str ex))"
    and "identities (snd (register_user e w r)) = identities w"
    and "users (snd (register_user e w r)) = users w"
  using assms by (simp_all add: register_user_def Let_def log_def)

text \<open>
  C5. A registration whose email already exists upstream should be answered with 409.
  The identity service reports the duplicate with a message that says
  \<^verbatim>\<open>already exists\<close> but does not contain the text \<^verbatim>\<open>email-already-exists\<close> the handler
  looks for, so the request is answered with the generic 400.
\<close>

theorem register_user_duplicate_email:
  "sublist ''already exists'' email_exists_message
   \<and> \<not> sublist ''email-already-exists'' email_exists_message
   \<and> auth_create_user (env0\<lparr>auth_create_user := create_user_duplicate\<rparr>)
        (reg_email reg0) (reg_password reg0) = Inl (Exn OtherException email_exists_message)
   \<and> fst (register_user (env0\<lparr>auth_create_user := create_user_duplicate\<rparr>) w0 reg0) =
       Inl (HTTPException 400
         ''Registration failed: The user with the provided email already exists (EMAIL_EXISTS).'')"
proof -
  have h: "auth_create_user (env0\<lparr>auth_create_user := create_user_duplicate\<rparr>)
        (reg_email reg0) (reg_password reg0) = Inl (Exn OtherException email_exists_message)"
    by (simp add: create_user_duplicate_def)
  from register_user_create_raises(1) [OF h, of w0] literal_not_in_message
  have "fst (register_user (env0\<lparr>auth_create_user := create_user_duplicate\<rparr>) w0 reg0) =
       Inl (HTTPException 400 (''Registration failed: '' @ email_exists_message))"
    by simp
  then have "fst (register_user (env0\<lparr>auth_create_user := create_user_duplicate\<rparr>) w0 reg0) =
       Inl (HTTPException 400
         ''Registration failed: The user with the provided email already exists (EMAIL_EXISTS).'')"
    by (simp add: email_exists_message_def)
  with h literal_not_in_message already_exists_in_message show ?thesis by blast
qed

text \<open>
  C10. After the identity is created, a failing profile write is answered with 400 and
  nothing removes the identity. When \<^verbatim>\<open>set(...)\<close> itself raises, no profile document is
  written. When \<^verbatim>\<open>set(...)\<close> returns, the profile document is written and the
  \<^verbatim>\<open>await\<close> of the returned value raises: the request is answered with 400 although
  the identity and the profile both exist.
\<close>

theorem register_user_profile_write:
  assumes "auth_create_user e (reg_email r) (reg_password r) = Inr user"
    and "doc = \<lparr>p_name = reg_name r, p_email = reg_email r, p_created_at = SERVER_TIMESTAMP\<rparr>"
  shows "(users_set e (uid user) doc = None \<longrightarrow>
            fst (register_user e w r) =
              Inl (HTTPException 400 (''Registration failed: '' @ str (not_awaitable WriteResult)))
          \<and> identities (snd (register_user e w r)) = identities w @ [user]
          \<and> users (snd (register_user e w r)) = (users w)(uid user \<mapsto> doc))
       \<and> (users_set e (uid user) doc = Some ex \<and> \<not> sublist ''email-already-exists'' (str ex) \<longrightarrow>
            fst (register_user e w r) = Inl (HTTPException 400 (''Registration failed: '' @ str ex))
          \<and> identities (snd (register_user e w r)) = identities w @ [user]
          \<and> users (snd (register_user e w r)) = users w)
       \<and> calls (snd (register_user e w r)) =
           calls w @ [CreateUser (reg_email r) (reg_password r), UsersSet (uid user) doc]"
  using assms literal_not_in_await_error
  by (auto simp: register_user_def await_def Let_def log_def split: option.splits)

theorem register_user_profile_write_witness:
  "auth_create_user env0 (reg_email reg0) (reg_password reg0) =
     Inr \<lparr>uid = ''u1'', email = ''jane@example.com''\<rparr>
   \<and> users_set env0 ''u1''
        \<lparr>p_name = ''Jane Doe'', p_email = ''jane@example.com'', p_created_at = SERVER_TIMESTAMP\<rparr>
       = None
   \<and> fst (register_user env0 w0 reg0) =
       Inl (HTTPException 400 (''Registration failed: '' @ str (not_awaitable WriteResult)))
   \<and> identities (snd (register_user env0 w0 reg0)) =
       [\<lparr>uid = ''u1'', email = ''jane@example.com''\<rparr>]
   \<and> users (snd (register_user env0 w0 reg0)) ''u1'' =
       Some \<lparr>p_name = ''Jane Doe'', p_email = ''jane@example.com'',
             p_created_at = SERVER_TIMESTAMP\<rparr>
   \<and> users_set (env0\<lparr>users_set := users_set_fails\<rparr>) ''u1''
        \<lparr>p_name = ''Jane Doe'', p_email = ''jane@example.com'', p_created_at = SERVER_TIMESTAMP\<rparr>
       = Some (Exn OtherException ''deadline exceeded'')
   \<and> fst (register_user (env0\<lparr>users_set := users_set_fails\<rparr>) w0 reg0) =
       Inl (HTTPException 400 ''Registration failed: deadline exceeded'')
   \<and> identities (snd (register_user (env0\<lparr>users_set := users_set_fails\<rparr>) w0 reg0)) =
       [\<lparr>uid = ''u1'', email = ''jane@example.com''\<rparr>]
   \<and> users (snd (register_user (env0\<lparr>users_set := users_set_fails\<rparr>) w0 reg0)) ''u1'' = None"
proof -
  have a: "auth_create_user env0 (reg_email reg0) (reg_password reg0) =
             Inr \<lparr>uid = ''u1'', email = ''jane@example.com''\<rparr>"
    by (simp add: env0_def reg0_def)
  have b: "auth_create_user (env0\<lparr>users_set := users_set_fails\<rparr>) (reg_email reg0)
             (reg_password reg0) = Inr \<lparr>uid = ''u1'', email = ''jane@example.com''\<rparr>"
    by (simp add: env0_def reg0_def)
  have s: "users_set env0 ''u1''
        \<lparr>p_name = ''Jane Doe'', p_email = ''jane@example.com'', p_created_at = SERVER_TIMESTAMP\<rparr>
       = None"
    by (simp add: env0_def)
  have f: "users_set (env0\<lparr>users_set := users_set_fails\<rparr>) ''u1''
        \<lparr>p_name = ''Jane Doe'', p_email = ''jane@example.com'', p_created_at = SERVER_TIMESTAMP\<rparr>
       = Some (Exn OtherException ''deadline exceeded'')"
    by (simp add: users_set_fails_def)
  have m: "\<not> sublist ''email-already-exists'' ''deadline exceeded''" by code_simp
  have d: "\<lparr>p_name = ''Jane Doe'', p_email = ''jane@example.com'', p_created_at = SERVER_TIMESTAMP\<rparr>
           = \<lparr>p_name = reg_name reg0, p_email = reg_email reg0, p_created_at = SERVER_TIMESTAMP\<rparr>"
    by (simp add: reg0_def)
  have i: "identities w0 = []" and n: "users w0 ''u1'' = None" by (simp_all add: w0_def)
  from register_user_profile_write [OF a d, of w0 "Exn OtherException ''deadline exceeded''"] s i
  have 1: "fst (register_user env0 w0 reg0) =
       Inl (HTTPException 400 (''Registration failed: '' @ str (not_awaitable WriteResult)))"
    and 2: "identities (snd (register_user env0 w0 reg0)) =
       [\<lparr>uid = ''u1'', email = ''jane@example.com''\<rparr>]"
    and 3: "users (snd (register_user env0 w0 reg0)) ''u1'' =
       Some \<lparr>p_name = ''Jane Doe'', p_email = ''jane@example.com'',
             p_created_at = SERVER_TIMESTAMP\<rparr>"
    by simp_all
  from register_user_profile_write [OF b d, of w0 "Exn OtherException ''deadline exceeded''"]
    f m i n
  have 4: "fst (register_user (env0\<lparr>users_set := users_set_fails\<rparr>) w0 reg0) =
       Inl (HTTPException 400 ''Registration failed: deadline exceeded'')"
    and 5: "identities (snd (register_user (env0\<lparr>users_set := users_set_fails\<rparr>) w0 reg0)) =
       [\<lparr>uid = ''u1'', email = ''jane@example.com''\<rparr>]"
    and 6: "users (snd (register_user (env0\<lparr>users_set := users_set_fails\<rparr>) w0 reg0)) ''u1'' = None"
    by simp_all
  from a s f 1 2 3 4 5 6 show ?thesis by blast
qed

section \<open>Login lookup\<close>

text \<open>
  C9. The login lookup returns the uid and email of the record the identity service
  finds, answers 404 when the service raises \<^verbatim>\<open>UserNotFoundError\<close> and 400 on any other
  exception. Two requests with the same email give the same result and the same
  world, whatever their passwords.
\<close>

theorem login_user_lookup:
  "(auth_get_user_by_email e (login_email r) = Inr user \<longrightarrow>
      fst (login_user e w r) =
        Inr [(''message'', ''User found (client handles actual authentication)''),
             (''uid'', uid user), (''email'', email user)])
   \<and> (auth_get_user_by_email e (login_email r) = Inl ex \<and> cls ex = UserNotFoundError \<longrightarrow>
      fst (login_user e w r) = Inl (HTTPException 404 ''User not found with this email.''))
   \<and> (auth_get_user_by_email e (login_email r) = Inl ex \<and> cls ex \<noteq> UserNotFoundError \<longrightarrow>
      fst (login_user e w r) =
        Inl (HTTPException 400 (''Login verification failed: '' @ str ex)))
   \<and> (login_email r' = login_email r \<longrightarrow> login_user e w r' = login_user e w r)"
  by (simp add: login_user_def Let_def)

theorem login_user_lookup_witness:
  "auth_get_user_by_email env0 (login_email login0) = Inr \<lparr>uid = ''u1'', email = ''jane@example.com''\<rparr>
   \<and> fst (login_user env0 w0 login0) =
        Inr [(''message'', ''User found (client handles actual authentication)''),
             (''uid'', ''u1''), (''email'', ''jane@example.com'')]
   \<and> login_user env0 w0 (login0\<lparr>login_password := ''wrong''\<rparr>) = login_user env0 w0 login0"
  using login_user_lookup [of env0 login0 "\<lparr>uid = ''u1'', email = ''jane@example.com''\<rparr>" w0
          "Exn OtherException []" "login0\<lparr>login_password := ''wrong''\<rparr>"]
  by (simp add: env0_def login0_def)

section \<open>Nutrition analysis\<close>

text \<open>
  C6. When either credential is unset or empty, \<^verbatim>\<open>analyze_nutrition\<close> answers 503 and the
  world is unchanged, so no upstream call is made, whatever the ingredients. When both
  are set, the post returns, \<^verbatim>\<open>raise_for_status\<close> does not raise and the body decodes,
  the result is the decoded JSON itself; the single call made carries the ingredient
  strings of the request in their order, and no store changes.
\<close>

theorem analyze_nutrition_passthrough:
  "(missing (EDAMAM_APP_ID e) \<or> missing (EDAMAM_APP_KEY e) \<longrightarrow>
      analyze_nutrition e w ingredients =
        (Inl (HTTPException 503
           ''Edamam API keys are not configured. Nutrition analysis is unavailable.''), w))
   \<and> (EDAMAM_APP_ID e = Some app_id \<and> app_id \<noteq> [] \<and> EDAMAM_APP_KEY e = Some app_key \<and> app_key \<noteq> []
       \<and> requests_post e edamam_nutrition_url (map ingredient ingredients)
            [(''app_id'', app_id), (''app_key'', app_key)] = Inr response
       \<and> r_raise_for_status response = None \<and> r_json response = Inr j \<longrightarrow>
      analyze_nutrition e w ingredients =
        (Inr j,
         w\<lparr>calls := calls w @
              [RequestsPost edamam_nutrition_url (map ingredient ingredients)
                 [(''app_id'', app_id), (''app_key'', app_key)]]\<rparr>))"
  by (simp add: analyze_nutrition_def missing_def Let_def log_def and_then_def)

theorem analyze_nutrition_passthrough_witness:
  "missing (EDAMAM_APP_ID env0)
   \<and> analyze_nutrition env0 w0 ingredients0 =
        (Inl (HTTPException 503
           ''Edamam API keys are not configured. Nutrition analysis is unavailable.''), w0)
   \<and> analyze_nutrition env_edamam w0 ingredients0 =
        (Inr (JDict [(''ingredients'', JList [JStr ''1 cup cooked rice'', JStr ''2 eggs'']),
                     (''calories'', JInt 520)]),
         w0\<lparr>calls := [RequestsPost edamam_nutrition_url [''1 cup cooked rice'', ''2 eggs'']
                         [(''app_id'', ''id''), (''app_key'', ''key'')]]\<rparr>)"
proof -
  have m: "missing (EDAMAM_APP_ID env0)" by (simp add: env0_def missing_def)
  have p: "requests_post env_edamam edamam_nutrition_url (map ingredient ingredients0)
            [(''app_id'', ''id''), (''app_key'', ''key'')] =
           Inr \<lparr>r_raise_for_status = None,
                r_json = Inr (JDict [(''ingredients'', JList [JStr ''1 cup cooked rice'', JStr ''2 eggs'']),
                                     (''calories'', JInt 520)])\<rparr>"
    by (simp add: env_edamam_def edamam_echo_def ingredients0_def)
  have c: "EDAMAM_APP_ID env_edamam = Some ''id''" "EDAMAM_APP_KEY env_edamam = Some ''key''"
    by (simp_all add: env_edamam_def)
  from analyze_nutrition_passthrough [of env0 w0 ingredients0 "''id''" "''key''"
         "\<lparr>r_raise_for_status = None, r_json = Inr JNull\<rparr>" JNull] m
  have u: "analyze_nutrition env0 w0 ingredients0 =
        (Inl (HTTPException 503
           ''Edamam API keys are not configured. Nutrition analysis is unavailable.''), w0)"
    by blast
  from analyze_nutrition_passthrough [of env_edamam w0 ingredients0 "''id''" "''key''"
         "\<lparr>r_raise_for_status = None,
           r_json = Inr (JDict [(''ingredients'', JList [JStr ''1 cup cooked rice'', JStr ''2 eggs'']),
                                (''calories'', JInt 520)])\<rparr>"
         "JDict [(''ingredients'', JList [JStr ''1 cup cooked rice'', JStr ''2 eggs'']),
                 (''calories'', JInt 520)]"] p c
  have s: "analyze_nutrition env_edamam w0 ingredients0 =
        (Inr (JDict [(''ingredients'', JList [JStr ''1 cup cooked rice'', JStr ''2 eggs'']),
                     (''calories'', JInt 520)]),
         w0\<lparr>calls := calls w0 @ [RequestsPost edamam_nutrition_url (map ingredient ingredients0)
                         [(''app_id'', ''id''), (''app_key'', ''key'')]]\<rparr>)"
    by simp
  from m u s show ?thesis by (simp add: w0_def ingredients0_def)
qed

section \<open>Plan generation: what every call does\<close>

text \<open>The loop over the search items: when it finishes, and when an item raises.\<close>

lemma append_playlists_ok:
  "map playlist_entry items = map Inr ps \<Longrightarrow> append_playlists items acc = (None, acc @ ps)"
proof (induction items arbitrary: ps acc)
  case Nil
  then show ?case by simp
next
  case (Cons i items)
  then obtain p ps' where ps: "ps = p # ps'" by (cases ps) auto
  with Cons.prems have "playlist_entry i = Inr p" "map playlist_entry items = map Inr ps'"
    by simp_all
  with Cons.IH [of ps' "acc @ [p]"] ps show ?case by simp
qed

lemma append_playlists_raise:
  "append_playlists items acc = (Some ex, res) \<Longrightarrow>
     \<exists>k<length items. \<exists>ps. res = acc @ ps
        \<and> map playlist_entry (take k items) = map Inr ps
        \<and> playlist_entry (items ! k) = Inl ex"
proof (induction items arbitrary: acc)
  case Nil
  then show ?case by simp
next
  case (Cons i items)
  show ?case
  proof (cases "playlist_entry i")
    case (Inl e)
    with Cons.prems have "ex = e" "res = acc" by simp_all
    with Inl have "res = acc @ [] \<and> map playlist_entry (take 0 (i # items)) = map Inr []
        \<and> playlist_entry ((i # items) ! 0) = Inl ex" by simp
    then show ?thesis by blast
  next
    case (Inr p)
    with Cons.prems have "append_playlists items (acc @ [p]) = (Some ex, res)" by simp
    from Cons.IH [OF this] obtain k ps where k: "k < length items"
      and r: "res = (acc @ [p]) @ ps"
      and m: "map playlist_entry (take k items) = map Inr ps"
      and f: "playlist_entry (items ! k) = Inl ex" by blast
    from k r m f Inr
    have "Suc k < length (i # items) \<and> res = acc @ (p # ps)
        \<and> map playlist_entry (take (Suc k) (i # items)) = map Inr (p # ps)
        \<and> playlist_entry ((i # items) ! Suc k) = Inl ex" by simp
    then show ?thesis by blast
  qed
qed

lemma append_playlists_done:
  "append_playlists items acc = (None, res) \<Longrightarrow>
     \<exists>ps. res = acc @ ps \<and> map playlist_entry items = map Inr ps"
proof (induction items arbitrary: acc)
  case Nil
  then show ?case by simp
next
  case (Cons i items)
  show ?case
  proof (cases "playlist_entry i")
    case (Inl e)
    with Cons.prems show ?thesis by simp
  next
    case (Inr p)
    with Cons.prems have "append_playlists items (acc @ [p]) = (None, res)" by simp
    from Cons.IH [OF this] obtain ps where "res = (acc @ [p]) @ ps"
      and "map playlist_entry items = map Inr ps" by blast
    with Inr have "res = acc @ (p # ps) \<and> map playlist_entry (i # items) = map Inr (p # ps)"
      by simp
    then show ?thesis by blast
  qed
qed

text \<open>The fields of the document handed to the store.\<close>

lemma plan_document_fields:
  "plan_document r wp dg ps =
     \<lparr>d_current_weight = current_weight r, d_target_weight = target_weight r,
      d_duration_weeks = duration_weeks r, d_music_genre = music_genre r,
      d_workout_intensity = workout_intensity r, d_workout_plan = wp,
      d_diet_general_info = dg, d_music_playlist_suggestions = ps,
      d_generated_at = SERVER_TIMESTAMP\<rparr>"
  by (simp add: plan_document_def)

text \<open>
  Once both texts are generated, the handler reaches the store write with the list of
  the playlist step, whatever the write then does.
\<close>

lemma generate_plan_trace:
  assumes "gemini_model e = Some g"
    and "generate_text g (workout_prompt r) = Inr wp"
    and "generate_text g (diet_initial_prompt r) = Inr dg"
  shows "calls (snd (generate_plan e w r)) =
           calls w @ [GenerateContent (workout_prompt r), GenerateContent (diet_initial_prompt r)] @
           (case spotify e of Some s \<Rightarrow> [SpotifySearch (query r) ''playlist'' 5] | None \<Rightarrow> []) @
           [PlansAdd (user_uid r) (plan_document r wp dg (playlist_step e r))]"
  using assms
  by (simp add: generate_plan_def generate_plan_body_def await_def Let_def log_def
           split: option.splits)

text \<open>When \<^verbatim>\<open>add(...)\<close> returns, the document is stored and the \<^verbatim>\<open>await\<close> raises.\<close>

lemma generate_plan_after_write:
  assumes "gemini_model e = Some g"
    and "generate_text g (workout_prompt r) = Inr wp"
    and "generate_text g (diet_initial_prompt r) = Inr dg"
    and "plans_add e (user_uid r) (plan_document r wp dg (playlist_step e r)) = None"
  shows "fst (generate_plan e w r) =
           Inl (HTTPException 500
             (''An internal error occurred while generating the plan: '' @
              str (not_awaitable Tuple)))"
    and "plans (snd (generate_plan e w r)) =
           (plans w)(user_uid r := plans w (user_uid r) @
              [plan_document r wp dg (playlist_step e r)])"
    and "users (snd (generate_plan e w r)) = users w"
    and "identities (snd (generate_plan e w r)) = identities w"
  using assms
  by (simp_all add: generate_plan_def generate_plan_body_def await_def Let_def log_def
           split: option.splits)


text \<open>
  When a generation call raises, or \<^verbatim>\<open>add(...)\<close> itself raises, the answer is 500 and no
  plan is stored.
\<close>

lemma generate_plan_error_before_write:
  assumes "gemini_model e = Some g"
    and "generate_text g (workout_prompt r) = Inl ex
       \<or> generate_text g (diet_initial_prompt r) = Inl ex
       \<or> (\<exists>wp dg. generate_text g (workout_prompt r) = Inr wp
             \<and> generate_text g (diet_initial_prompt r) = Inr dg
             \<and> plans_add e (user_uid r) (plan_document r wp dg (playlist_step e r)) = Some ex)"
  shows "(\<exists>d. fst (generate_plan e w r) = Inl (HTTPException 500 d))
       \<and> plans (snd (generate_plan e w r)) = plans w"
  using assms
  by (auto simp: generate_plan_def generate_plan_body_def Let_def log_def
           split: sum.splits option.splits)

lemma no_search_without_client:
  assumes "spotify e = None"
  shows "filter is_SpotifySearch (calls (snd (generate_plan e w r)))
           = filter is_SpotifySearch (calls w)"
  using assms
  by (auto simp: generate_plan_def generate_plan_body_def await_def Let_def log_def
           split: option.splits sum.splits raised.splits)

text \<open>The concrete services evaluated.\<close>

lemma playlist_entry_item: "playlist_entry (item n) = Inr (entry n)"
  by (simp add: playlist_entry_def item_def entry_def and_then_def)

lemma playlist_entry_null:
  "playlist_entry JNull = Inl (Exn TypeError (quote ''NoneType'' @ '' object is not subscriptable''))"
  by (simp add: playlist_entry_def and_then_def)

lemma result_items_search_result: "result_items (search_result items) = Inr items"
  by (simp add: result_items_def search_result_def and_then_def)

lemma generate_text_ok:
  "generate_text gemini_ok (workout_prompt r) = Inr ''Day 1: squats''"
  "generate_text gemini_ok (diet_initial_prompt r) = Inr ''2000 kcal''"
  by (simp_all add: generate_text_def gemini_ok_def workout_prompt_def diet_initial_prompt_def
        and_then_def)

lemma search_null_item_raises:
  "search_playlists search_null_item req0 [] =
     (Some (Exn TypeError (quote ''NoneType'' @ '' object is not subscriptable'')), [entry ''a''])"
  by (simp add: search_playlists_def search_null_item_def result_items_search_result
        playlist_entry_item playlist_entry_null)

lemma search_rate_limited_raises:
  "search_playlists search_rate_limited req0 [] =
     (Some (Exn SpotifyException ''http status: 429''), [])"
  by (simp add: search_playlists_def search_rate_limited_def)

lemma search_six_ok:
  "search_playlists search_six req0 [] =
     (None, [entry ''a'', entry ''b'', entry ''c'', entry ''d'', entry ''e'', entry ''f''])"
  by (simp add: search_playlists_def search_six_def result_items_search_result playlist_entry_item)

lemma search_two_ok:
  "search_playlists search_two req0 [] = (None, [entry ''a'', entry ''b''])"
  by (simp add: search_playlists_def search_two_def result_items_search_result playlist_entry_item)

lemma playlist_step_examples:
  "playlist_step env_gemini r =
     [Error ''Spotify API not initialized. Check server logs for credential errors.'']"
  "playlist_step env_two req0 = [entry ''a'', entry ''b'']"
  "playlist_step env_six req0 =
     [entry ''a'', entry ''b'', entry ''c'', entry ''d'', entry ''e'', entry ''f'']"
  "playlist_step env_null_item req0 =
     [entry ''a'',
      Error (''An unexpected Spotify error occurred: '' @ quote ''NoneType'' @
             '' object is not subscriptable'')]"
  "playlist_step env_rate_limited req0 =
     [Error ''Spotify API error: http status: 429. Check credentials or network.'']"
  by (simp_all add: playlist_step_def env_gemini_def env_two_def env_six_def env_null_item_def
        env_rate_limited_def env0_def search_two_ok search_six_ok search_null_item_raises
        search_rate_limited_raises)

lemma example_clients:
  "gemini_model env_gemini = Some gemini_ok" "spotify env_gemini = None"
  "gemini_model env_two = Some gemini_ok" "spotify env_two = Some search_two"
  "gemini_model env_six = Some gemini_ok" "spotify env_six = Some search_six"
  "gemini_model env_null_item = Some gemini_ok" "spotify env_null_item = Some search_null_item"
  "gemini_model env_rate_limited = Some gemini_ok"
  "spotify env_rate_limited = Some search_rate_limited"
  by (simp_all add: env_gemini_def env_two_def env_six_def env_null_item_def
        env_rate_limited_def env0_def)

lemma example_add_returns:
  "plans_add env_gemini u d = None" "plans_add env_two u d = None"
  "plans_add env_six u d = None" "plans_add env_null_item u d = None"
  "plans_add env_rate_limited u d = None"
  by (simp_all add: env_gemini_def env_two_def env_six_def env_null_item_def
        env_rate_limited_def env0_def)

section \<open>Plan generation: the store write and the catalog step\<close>

text \<open>
  C1. A failed request should leave no plan behind. That holds when a generation call
  raises or \<^verbatim>\<open>add(...)\<close> itself raises. It does not hold for the write statement as a
  whole: when both texts are generated and \<^verbatim>\<open>add(...)\<close> returns, the plan document is
  stored under the user, the \<^verbatim>\<open>await\<close> of the returned tuple raises, and the handler
  answers 500 with the document in the store.
\<close>

theorem generate_plan_persists_then_fails:
  assumes "gemini_model e = Some g"
    and "generate_text g (workout_prompt r) = Inr wp"
    and "generate_text g (diet_initial_prompt r) = Inr dg"
    and "plans_add e (user_uid r) (plan_document r wp dg (playlist_step e r)) = None"
  shows "fst (generate_plan e w r) =
           Inl (HTTPException 500
             (''An internal error occurred while generating the plan: '' @
              str (not_awaitable Tuple)))
       \<and> plans (snd (generate_plan e w r)) (user_uid r) =
           plans w (user_uid r) @
             [\<lparr>d_current_weight = current_weight r, d_target_weight = target_weight r,
               d_duration_weeks = duration_weeks r, d_music_genre = music_genre r,
               d_workout_intensity = workout_intensity r, d_workout_plan = wp,
               d_diet_general_info = dg,
               d_music_playlist_suggestions = playlist_step e r,
               d_generated_at = SERVER_TIMESTAMP\<rparr>]"
  using generate_plan_after_write(1,2) [OF assms, of w]
  by (simp add: plan_document_fields)

theorem generate_plan_persists_then_fails_witness:
  "gemini_model env_rate_limited = Some gemini_ok
   \<and> generate_text gemini_ok (workout_prompt req0) = Inr ''Day 1: squats''
   \<and> generate_text gemini_ok (diet_initial_prompt req0) = Inr ''2000 kcal''
   \<and> plans_add env_rate_limited (user_uid req0)
        (plan_document req0 ''Day 1: squats'' ''2000 kcal'' (playlist_step env_rate_limited req0))
       = None
   \<and> fst (generate_plan env_rate_limited w0 req0) =
       Inl (HTTPException 500
         (''An internal error occurred while generating the plan: '' @
          str (not_awaitable Tuple)))
   \<and> plans w0 ''u1'' = []
   \<and> plans (snd (generate_plan env_rate_limited w0 req0)) ''u1'' =
       [\<lparr>d_current_weight = 70.5, d_target_weight = 65.0, d_duration_weeks = 8,
         d_music_genre = ''Electronic Dance Music'', d_workout_intensity = Some ''moderate'',
         d_workout_plan = ''Day 1: squats'', d_diet_general_info = ''2000 kcal'',
         d_music_playlist_suggestions =
           [Error ''Spotify API error: http status: 429. Check credentials or network.''],
         d_generated_at = SERVER_TIMESTAMP\<rparr>]"
proof -
  note t = generate_plan_persists_then_fails
             [OF example_clients(9) generate_text_ok(1) [of req0] generate_text_ok(2) [of req0]
                 example_add_returns(5), of w0, unfolded playlist_step_examples(5)]
  have u: "user_uid req0 = ''u1''" and e: "plans w0 ''u1'' = []"
    by (simp_all add: req0_def w0_def)
  from t u e
  have "plans (snd (generate_plan env_rate_limited w0 req0)) ''u1'' =
       [\<lparr>d_current_weight = 70.5, d_target_weight = 65.0, d_duration_weeks = 8,
         d_music_genre = ''Electronic Dance Music'', d_workout_intensity = Some ''moderate'',
         d_workout_plan = ''Day 1: squats'', d_diet_general_info = ''2000 kcal'',
         d_music_playlist_suggestions =
           [Error ''Spotify API error: http status: 429. Check credentials or network.''],
         d_generated_at = SERVER_TIMESTAMP\<rparr>]"
    by (simp add: req0_def)
  with t e example_clients(9) generate_text_ok [of req0] example_add_returns(5)
  show ?thesis by blast
qed

text \<open>
  C8. With a generation client and no catalog client, no search call is ever made.
  When both texts are generated and \<^verbatim>\<open>add(...)\<close> returns, the plan document, holding the
  request's fields, the two texts and the single marker \<^verbatim>\<open>Spotify API not initialized\<close>,
  is stored under the user. The response is not the successful one: the \<^verbatim>\<open>await\<close> of
  the returned tuple raises and the handler answers 500.
\<close>

theorem generate_plan_catalog_unconfigured:
  assumes "gemini_model e = Some g" and "spotify e = None"
  shows "filter is_SpotifySearch (calls (snd (generate_plan e w r)))
           = filter is_SpotifySearch (calls w)
       \<and> (generate_text g (workout_prompt r) = Inr wp
            \<and> generate_text g (diet_initial_prompt r) = Inr dg
            \<and> plans_add e (user_uid r)
                 (plan_document r wp dg
                    [Error ''Spotify API not initialized. Check server logs for credential errors.''])
                = None
          \<longrightarrow> fst (generate_plan e w r) =
                 Inl (HTTPException 500
                   (''An internal error occurred while generating the plan: '' @
                    str (not_awaitable Tuple)))
              \<and> plans (snd (generate_plan e w r)) (user_uid r) =
                  plans w (user_uid r) @
                    [\<lparr>d_current_weight = current_weight r, d_target_weight = target_weight r,
                      d_duration_weeks = duration_weeks r, d_music_genre = music_genre r,
                      d_workout_intensity = workout_intensity r, d_workout_plan = wp,
                      d_diet_general_info = dg,
                      d_music_playlist_suggestions =
                        [Error ''Spotify API not initialized. Check server logs for credential errors.''],
                      d_generated_at = SERVER_TIMESTAMP\<rparr>]
              \<and> calls (snd (generate_plan e w r)) =
                  calls w @ [GenerateContent (workout_prompt r),
                             GenerateContent (diet_initial_prompt r),
                             PlansAdd (user_uid r)
                               \<lparr>d_current_weight = current_weight r,
                                d_target_weight = target_weight r,
                                d_duration_weeks = duration_weeks r,
                                d_music_genre = music_genre r,
                                d_workout_intensity = workout_intensity r, d_workout_plan = wp,
                                d_diet_general_info = dg,
                                d_music_playlist_suggestions =
                                  [Error ''Spotify API not initialized. Check server logs for credential errors.''],
                                d_generated_at = SERVER_TIMESTAMP\<rparr>])"
proof -
  from assms(2) have p: "playlist_step e r =
      [Error ''Spotify API not initialized. Check server logs for credential errors.'']"
    by (simp add: playlist_step_def)
  show ?thesis
    using no_search_without_client [OF assms(2), of w r]
      generate_plan_after_write(1,2) [OF assms(1), of r wp dg w]
      generate_plan_trace [OF assms(1), of r wp dg w] assms(2) p
    by (simp add: plan_document_fields)
qed

theorem generate_plan_catalog_unconfigured_witness:
  "gemini_model env_gemini = Some gemini_ok \<and> spotify env_gemini = None
   \<and> generate_text gemini_ok (workout_prompt req0) = Inr ''Day 1: squats''
   \<and> generate_text gemini_ok (diet_initial_prompt req0) = Inr ''2000 kcal''
   \<and> fst (generate_plan env_gemini w0 req0) =
       Inl (HTTPException 500
         (''An internal error occurred while generating the plan: '' @
          str (not_awaitable Tuple)))
   \<and> plans (snd (generate_plan env_gemini w0 req0)) ''u1'' =
       [\<lparr>d_current_weight = 70.5, d_target_weight = 65.0, d_duration_weeks = 8,
         d_music_genre = ''Electronic Dance Music'', d_workout_intensity = Some ''moderate'',
         d_workout_plan = ''Day 1: squats'', d_diet_general_info = ''2000 kcal'',
         d_music_playlist_suggestions =
           [Error ''Spotify API not initialized. Check server logs for credential errors.''],
         d_generated_at = SERVER_TIMESTAMP\<rparr>]
   \<and> filter is_SpotifySearch (calls (snd (generate_plan env_gemini w0 req0))) = []"
proof -
  note t = generate_plan_catalog_unconfigured
             [OF example_clients(1) example_clients(2), of w0 req0 "''Day 1: squats''"
                 "''2000 kcal''"]
  have u: "user_uid req0 = ''u1''" and e: "plans w0 ''u1'' = []" and c: "calls w0 = []"
    by (simp_all add: req0_def w0_def)
  from t generate_text_ok [of req0] example_add_returns(1)
  have 1: "fst (generate_plan env_gemini w0 req0) =
       Inl (HTTPException 500
         (''An internal error occurred while generating the plan: '' @
          str (not_awaitable Tuple)))"
    and 2: "plans (snd (generate_plan env_gemini w0 req0)) (user_uid req0) =
       plans w0 (user_uid req0) @
       [\<lparr>d_current_weight = current_weight req0, d_target_weight = target_weight req0,
         d_duration_weeks = duration_weeks req0, d_music_genre = music_genre req0,
         d_workout_intensity = workout_intensity req0, d_workout_plan = ''Day 1: squats'',
         d_diet_general_info = ''2000 kcal'',
         d_music_playlist_suggestions =
           [Error ''Spotify API not initialized. Check server logs for credential errors.''],
         d_generated_at = SERVER_TIMESTAMP\<rparr>]"
    and 3: "filter is_SpotifySearch (calls (snd (generate_plan env_gemini w0 req0)))
              = filter is_SpotifySearch (calls w0)"
    by blast+
  from 2 u e
  have 4: "plans (snd (generate_plan env_gemini w0 req0)) ''u1'' =
       [\<lparr>d_current_weight = 70.5, d_target_weight = 65.0, d_duration_weeks = 8,
         d_music_genre = ''Electronic Dance Music'', d_workout_intensity = Some ''moderate'',
         d_workout_plan = ''Day 1: squats'', d_diet_general_info = ''2000 kcal'',
         d_music_playlist_suggestions =
           [Error ''Spotify API not initialized. Check server logs for credential errors.''],
         d_generated_at = SERVER_TIMESTAMP\<rparr>]"
    by (simp add: req0_def)
  from 3 c have 5: "filter is_SpotifySearch (calls (snd (generate_plan env_gemini w0 req0))) = []"
    by simp
  from 1 4 5 example_clients(1,2) generate_text_ok [of req0] show ?thesis by blast
qed


text \<open>
  C2, as stated: when the search or the processing of its results raises, the request
  is answered successfully with a playlist field that is a single error marker. With a
  response whose second item is null, the list the handler builds and stores is the
  entry of the first item followed by the marker, and the answer is 500.
\<close>

theorem generate_plan_catalog_raises_counterexample:
  "spotify env_null_item = Some search_null_item
   \<and> fst (search_playlists search_null_item req0 []) =
       Some (Exn TypeError (quote ''NoneType'' @ '' object is not subscriptable''))
   \<and> fst (generate_plan env_null_item w0 req0) =
       Inl (HTTPException 500
         (''An internal error occurred while generating the plan: '' @
          str (not_awaitable Tuple)))
   \<and> plans (snd (generate_plan env_null_item w0 req0)) ''u1'' =
       [\<lparr>d_current_weight = 70.5, d_target_weight = 65.0, d_duration_weeks = 8,
         d_music_genre = ''Electronic Dance Music'', d_workout_intensity = Some ''moderate'',
         d_workout_plan = ''Day 1: squats'', d_diet_general_info = ''2000 kcal'',
         d_music_playlist_suggestions =
           [entry ''a'',
            Error (''An unexpected Spotify error occurred: '' @ quote ''NoneType'' @
                   '' object is not subscriptable'')],
         d_generated_at = SERVER_TIMESTAMP\<rparr>]"
proof -
  note t = generate_plan_after_write(1,2)
             [OF example_clients(7) generate_text_ok(1) [of req0] generate_text_ok(2) [of req0]
                 example_add_returns(4), of w0, unfolded playlist_step_examples(4)]
  have e: "plans w0 ''u1'' = []" by (simp add: w0_def)
  from t(2) e
  have "plans (snd (generate_plan env_null_item w0 req0)) ''u1'' =
       [\<lparr>d_current_weight = 70.5, d_target_weight = 65.0, d_duration_weeks = 8,
         d_music_genre = ''Electronic Dance Music'', d_workout_intensity = Some ''moderate'',
         d_workout_plan = ''Day 1: squats'', d_diet_general_info = ''2000 kcal'',
         d_music_playlist_suggestions =
           [entry ''a'',
            Error (''An unexpected Spotify error occurred: '' @ quote ''NoneType'' @
                   '' object is not subscriptable'')],
         d_generated_at = SERVER_TIMESTAMP\<rparr>]"
    by (simp add: plan_document_fields req0_def)
  with t(1) example_clients(8) search_null_item_raises show ?thesis by simp
qed

text \<open>
  C2, amended. With both clients configured and both texts generated, an exception of
  the search or of the processing of its results does not end the request: the handler
  goes on to the store write. The list it hands to the store, and that is stored when
  \<^verbatim>\<open>add(...)\<close> returns, is the entries appended before the failure followed by exactly
  one error marker. No entry precedes the marker when the search call itself raises or
  the items cannot be reached; otherwise the entries are those of the items before the
  first one that raises.
\<close>

theorem generate_plan_catalog_raises:
  assumes "gemini_model e = Some g" and "spotify e = Some s"
    and "generate_text g (workout_prompt r) = Inr wp"
    and "generate_text g (diet_initial_prompt r) = Inr dg"
    and "search_playlists s r [] = (Some se, appended)"
    and "doc =
       \<lparr>d_current_weight = current_weight r, d_target_weight = target_weight r,
        d_duration_weeks = duration_weeks r, d_music_genre = music_genre r,
        d_workout_intensity = workout_intensity r, d_workout_plan = wp,
        d_diet_general_info = dg,
        d_music_playlist_suggestions =
          appended @
          [if cls se = SpotifyException
           then Error (''Spotify API error: '' @ str se @ ''. Check credentials or network.'')
           else Error (''An unexpected Spotify error occurred: '' @ str se)],
        d_generated_at = SERVER_TIMESTAMP\<rparr>"
  shows "calls (snd (generate_plan e w r)) =
           calls w @ [GenerateContent (workout_prompt r), GenerateContent (diet_initial_prompt r),
                      SpotifySearch (query r) ''playlist'' 5, PlansAdd (user_uid r) doc]
       \<and> (plans_add e (user_uid r) doc = None \<longrightarrow>
            plans (snd (generate_plan e w r)) (user_uid r) = plans w (user_uid r) @ [doc])
       \<and> (s (query r) ''playlist'' 5 = Inl se' \<longrightarrow> appended = [])
       \<and> (s (query r) ''playlist'' 5 = Inr results \<and> result_items results = Inl se' \<longrightarrow>
            appended = [])
       \<and> (s (query r) ''playlist'' 5 = Inr results \<and> result_items results = Inr items \<longrightarrow>
            (\<exists>k<length items.
                map playlist_entry (take k items) = map Inr appended
              \<and> playlist_entry (items ! k) = Inl se))"
proof -
  from assms(2,5) have p: "playlist_step e r =
      appended @
      [if cls se = SpotifyException
       then Error (''Spotify API error: '' @ str se @ ''. Check credentials or network.'')
       else Error (''An unexpected Spotify error occurred: '' @ str se)]"
    by (simp add: playlist_step_def)
  with assms(6) have d: "plan_document r wp dg (playlist_step e r) = doc"
    by (simp add: plan_document_fields)
  from generate_plan_trace [OF assms(1,3,4), of w] assms(2) d
  have 1: "calls (snd (generate_plan e w r)) =
           calls w @ [GenerateContent (workout_prompt r), GenerateContent (diet_initial_prompt r),
                      SpotifySearch (query r) ''playlist'' 5, PlansAdd (user_uid r) doc]"
    by simp
  have 2: "plans_add e (user_uid r) doc = None \<longrightarrow>
            plans (snd (generate_plan e w r)) (user_uid r) = plans w (user_uid r) @ [doc]"
  proof
    assume "plans_add e (user_uid r) doc = None"
    with d have "plans_add e (user_uid r) (plan_document r wp dg (playlist_step e r)) = None"
      by simp
    from generate_plan_after_write(2) [OF assms(1,3,4) this, of w] d
    show "plans (snd (generate_plan e w r)) (user_uid r) = plans w (user_uid r) @ [doc]"
      by simp
  qed
  from assms(5) have 3: "s (query r) ''playlist'' 5 = Inl se' \<longrightarrow> appended = []"
    by (auto simp: search_playlists_def)
  from assms(5)
  have 4: "s (query r) ''playlist'' 5 = Inr results \<and> result_items results = Inl se' \<longrightarrow>
            appended = []"
    by (auto simp: search_playlists_def)
  have 5: "s (query r) ''playlist'' 5 = Inr results \<and> result_items results = Inr items \<longrightarrow>
            (\<exists>k<length items.
                map playlist_entry (take k items) = map Inr appended
              \<and> playlist_entry (items ! k) = Inl se)"
  proof
    assume h: "s (query r) ''playlist'' 5 = Inr results \<and> result_items results = Inr items"
    with assms(5) have "append_playlists items [] = (Some se, appended)"
      by (simp add: search_playlists_def)
    from append_playlists_raise [OF this] show
      "\<exists>k<length items. map playlist_entry (take k items) = map Inr appended
         \<and> playlist_entry (items ! k) = Inl se" by auto
  qed
  from 1 2 3 4 5 show ?thesis by blast
qed

theorem generate_plan_catalog_raises_witness:
  "search_playlists search_null_item req0 [] =
     (Some (Exn TypeError (quote ''NoneType'' @ '' object is not subscriptable'')), [entry ''a''])
   \<and> plans (snd (generate_plan env_null_item w0 req0)) ''u1'' =
       [\<lparr>d_current_weight = 70.5, d_target_weight = 65.0, d_duration_weeks = 8,
         d_music_genre = ''Electronic Dance Music'', d_workout_intensity = Some ''moderate'',
         d_workout_plan = ''Day 1: squats'', d_diet_general_info = ''2000 kcal'',
         d_music_playlist_suggestions =
           [entry ''a'',
            Error (''An unexpected Spotify error occurred: '' @ quote ''NoneType'' @
                   '' object is not subscriptable'')],
         d_generated_at = SERVER_TIMESTAMP\<rparr>]
   \<and> search_playlists search_rate_limited req0 [] =
       (Some (Exn SpotifyException ''http status: 429''), [])
   \<and> plans (snd (generate_plan env_rate_limited w0 req0)) ''u1'' =
       [\<lparr>d_current_weight = 70.5, d_target_weight = 65.0, d_duration_weeks = 8,
         d_music_genre = ''Electronic Dance Music'', d_workout_intensity = Some ''moderate'',
         d_workout_plan = ''Day 1: squats'', d_diet_general_info = ''2000 kcal'',
         d_music_playlist_suggestions =
           [Error ''Spotify API error: http status: 429. Check credentials or network.''],
         d_generated_at = SERVER_TIMESTAMP\<rparr>]"
proof -
  have u: "user_uid req0 = ''u1''" and e: "plans w0 ''u1'' = []"
    by (simp_all add: req0_def w0_def)
  note a = generate_plan_catalog_raises
             [OF example_clients(7) example_clients(8) generate_text_ok(1) [of req0]
                 generate_text_ok(2) [of req0] search_null_item_raises refl, of w0]
  note b = generate_plan_catalog_raises
             [OF example_clients(9) example_clients(10) generate_text_ok(1) [of req0]
                 generate_text_ok(2) [of req0] search_rate_limited_raises refl, of w0]
  from a example_add_returns(4) u e
  have 1: "plans (snd (generate_plan env_null_item w0 req0)) ''u1'' =
       [\<lparr>d_current_weight = 70.5, d_target_weight = 65.0, d_duration_weeks = 8,
         d_music_genre = ''Electronic Dance Music'', d_workout_intensity = Some ''moderate'',
         d_workout_plan = ''Day 1: squats'', d_diet_general_info = ''2000 kcal'',
         d_music_playlist_suggestions =
           [entry ''a'',
            Error (''An unexpected Spotify error occurred: '' @ quote ''NoneType'' @
                   '' object is not subscriptable'')],
         d_generated_at = SERVER_TIMESTAMP\<rparr>]"
    by (simp add: req0_def)
  from b example_add_returns(5) u e
  have 2: "plans (snd (generate_plan env_rate_limited w0 req0)) ''u1'' =
       [\<lparr>d_current_weight = 70.5, d_target_weight = 65.0, d_duration_weeks = 8,
         d_music_genre = ''Electronic Dance Music'', d_workout_intensity = Some ''moderate'',
         d_workout_plan = ''Day 1: squats'', d_diet_general_info = ''2000 kcal'',
         d_music_playlist_suggestions =
           [Error ''Spotify API error: http status: 429. Check credentials or network.''],
         d_generated_at = SERVER_TIMESTAMP\<rparr>]"
    by (simp add: req0_def)
  from 1 2 search_null_item_raises search_rate_limited_raises show ?thesis by blast
qed

text \<open>
  C4, as stated: the list never has more than 5 elements, however many items the search
  response contains. The handler passes \<^verbatim>\<open>limit=5\<close> to the search and iterates over
  every item of the response: with a response of six items the stored list has six
  entries.
\<close>

theorem generate_plan_playlists_counterexample:
  "search_six (query req0) ''playlist'' 5 =
     Inr (search_result [item ''a'', item ''b'', item ''c'', item ''d'', item ''e'', item ''f''])
   \<and> plans (snd (generate_plan env_six w0 req0)) ''u1'' =
       [\<lparr>d_current_weight = 70.5, d_target_weight = 65.0, d_duration_weeks = 8,
         d_music_genre = ''Electronic Dance Music'', d_workout_intensity = Some ''moderate'',
         d_workout_plan = ''Day 1: squats'', d_diet_general_info = ''2000 kcal'',
         d_music_playlist_suggestions =
           [entry ''a'', entry ''b'', entry ''c'', entry ''d'', entry ''e'', entry ''f''],
         d_generated_at = SERVER_TIMESTAMP\<rparr>]
   \<and> length [entry ''a'', entry ''b'', entry ''c'', entry ''d'', entry ''e'', entry ''f''] = 6"
proof -
  note t = generate_plan_after_write(2)
             [OF example_clients(5) generate_text_ok(1) [of req0] generate_text_ok(2) [of req0]
                 example_add_returns(3), of w0, unfolded playlist_step_examples(3)]
  have e: "plans w0 ''u1'' = []" by (simp add: w0_def)
  from t e
  have "plans (snd (generate_plan env_six w0 req0)) ''u1'' =
       [\<lparr>d_current_weight = 70.5, d_target_weight = 65.0, d_duration_weeks = 8,
         d_music_genre = ''Electronic Dance Music'', d_workout_intensity = Some ''moderate'',
         d_workout_plan = ''Day 1: squats'', d_diet_general_info = ''2000 kcal'',
         d_music_playlist_suggestions =
           [entry ''a'', entry ''b'', entry ''c'', entry ''d'', entry ''e'', entry ''f''],
         d_generated_at = SERVER_TIMESTAMP\<rparr>]"
    by (simp add: plan_document_fields req0_def)
  then show ?thesis by (simp add: search_six_def)
qed

text \<open>
  C4, amended. When the catalog step raises nothing, that is, the search call returns
  and every item of its response is processed, the list handed to the store, and stored
  when \<^verbatim>\<open>add(...)\<close> returns, holds one entry per item of the response, in the order of
  the response. The search is asked for at most 5 results and the response is not
  truncated: the list is exactly as long as the response.
\<close>

theorem generate_plan_playlists:
  assumes "gemini_model e = Some g" and "spotify e = Some s"
    and "generate_text g (workout_prompt r) = Inr wp"
    and "generate_text g (diet_initial_prompt r) = Inr dg"
    and "search_playlists s r [] = (None, ps)"
    and "doc =
       \<lparr>d_current_weight = current_weight r, d_target_weight = target_weight r,
        d_duration_weeks = duration_weeks r, d_music_genre = music_genre r,
        d_workout_intensity = workout_intensity r, d_workout_plan = wp,
        d_diet_general_info = dg, d_music_playlist_suggestions = ps,
        d_generated_at = SERVER_TIMESTAMP\<rparr>"
  shows "(\<exists>results items. s (query r) ''playlist'' 5 = Inr results
            \<and> result_items results = Inr items
            \<and> map playlist_entry items = map Inr ps
            \<and> length ps = length items)
       \<and> calls (snd (generate_plan e w r)) =
           calls w @ [GenerateContent (workout_prompt r), GenerateContent (diet_initial_prompt r),
                      SpotifySearch (query r) ''playlist'' 5, PlansAdd (user_uid r) doc]
       \<and> (plans_add e (user_uid r) doc = None \<longrightarrow>
            plans (snd (generate_plan e w r)) (user_uid r) = plans w (user_uid r) @ [doc])"
proof -
  from assms(5) obtain results items where s: "s (query r) ''playlist'' 5 = Inr results"
    and i: "result_items results = Inr items"
    and a: "append_playlists items [] = (None, ps)"
    by (auto simp: search_playlists_def split: sum.splits)
  from append_playlists_done [OF a] have m: "map playlist_entry items = map Inr ps" by simp
  then have l: "length ps = length items" by (metis length_map)
  from assms(2,5) have p: "playlist_step e r = ps" by (simp add: playlist_step_def)
  with assms(6) have d: "plan_document r wp dg (playlist_step e r) = doc"
    by (simp add: plan_document_fields)
  from generate_plan_trace [OF assms(1,3,4), of w] assms(2) d
  have 1: "calls (snd (generate_plan e w r)) =
           calls w @ [GenerateContent (workout_prompt r), GenerateContent (diet_initial_prompt r),
                      SpotifySearch (query r) ''playlist'' 5, PlansAdd (user_uid r) doc]"
    by simp
  have 2: "plans_add e (user_uid r) doc = None \<longrightarrow>
            plans (snd (generate_plan e w r)) (user_uid r) = plans w (user_uid r) @ [doc]"
  proof
    assume "plans_add e (user_uid r) doc = None"
    with d have "plans_add e (user_uid r) (plan_document r wp dg (playlist_step e r)) = None"
      by simp
    from generate_plan_after_write(2) [OF assms(1,3,4) this, of w] d
    show "plans (snd (generate_plan e w r)) (user_uid r) = plans w (user_uid r) @ [doc]"
      by simp
  qed
  from s i m l 1 2 show ?thesis by blast
qed

theorem generate_plan_playlists_witness:
  "search_playlists search_two req0 [] = (None, [entry ''a'', entry ''b''])
   \<and> search_two (query req0) ''playlist'' 5 = Inr (search_result [item ''a'', item ''b''])
   \<and> plans (snd (generate_plan env_two w0 req0)) ''u1'' =
       [\<lparr>d_current_weight = 70.5, d_target_weight = 65.0, d_duration_weeks = 8,
         d_music_genre = ''Electronic Dance Music'', d_workout_intensity = Some ''moderate'',
         d_workout_plan = ''Day 1: squats'', d_diet_general_info = ''2000 kcal'',
         d_music_playlist_suggestions = [entry ''a'', entry ''b''],
         d_generated_at = SERVER_TIMESTAMP\<rparr>]"
proof -
  have u: "user_uid req0 = ''u1''" and e: "plans w0 ''u1'' = []"
    by (simp_all add: req0_def w0_def)
  note a = generate_plan_playlists
             [OF example_clients(3) example_clients(4) generate_text_ok(1) [of req0]
                 generate_text_ok(2) [of req0] search_two_ok refl, of w0]
  from a example_add_returns(2) u e
  have "plans (snd (generate_plan env_two w0 req0)) ''u1'' =
       [\<lparr>d_current_weight = 70.5, d_target_weight = 65.0, d_duration_weeks = 8,
         d_music_genre = ''Electronic Dance Music'', d_workout_intensity = Some ''moderate'',
         d_workout_plan = ''Day 1: squats'', d_diet_general_info = ''2000 kcal'',
         d_music_playlist_suggestions = [entry ''a'', entry ''b''],
         d_generated_at = SERVER_TIMESTAMP\<rparr>]"
    by (simp add: req0_def)
  with search_two_ok show ?thesis by (simp add: search_two_def)
qed

end
